theory Spec2Isabelle
  imports Main "HOL-Library.Word" "HOL-Library.Sublist"
begin

section \<open>Values and exceptions of the interpreter\<close>

text \<open>
  The script \<^verbatim>\<open>scripts/validate_rfc6979.py\<close> works on what \<^verbatim>\<open>json.load\<close>
  returns, so a vector is an arbitrary JSON value, not a typed record: every subscript,
  membership test and conversion below can raise, as it does in Python.
  A \<^verbatim>\<open>dict\<close> is the list of its items (lookup takes the first entry of a key);
  a \<^verbatim>\<open>float\<close> \<open>JFloat m e\<close> stands for \<open>m * 2 ^ e\<close>; a \<^verbatim>\<open>str\<close> is a list
  of 8-bit characters.
\<close>

datatype json =
    JNull
  | JBool bool
  | JInt int
  | JFloat int int
  | JStr string
  | JList "json list"
  | JDict "(string \<times> json) list"

datatype exn =
    KeyError string
  | TypeError string
  | ValueError string
  | InvalidSignature
  | LibraryError string

type_synonym byte = "8 word"
type_synonym bytes = "byte list"

definition quoted :: "string \<Rightarrow> string" where
  "quoted s = [CHR 0x27] @ s @ [CHR 0x27]"

text \<open>\<^verbatim>\<open>str(e)\<close>, as the f-strings of the \<^verbatim>\<open>except\<close> clauses format an exception.\<close>

fun exn_str :: "exn \<Rightarrow> string" where
  "exn_str (KeyError k) = quoted k"
| "exn_str (TypeError m) = m"
| "exn_str (ValueError m) = m"
| "exn_str InvalidSignature = []"
| "exn_str (LibraryError m) = m"

text \<open>Sequencing of statements that can raise: the first exception ends the block.\<close>

definition and_then :: "exn + 'a \<Rightarrow> ('a \<Rightarrow> exn + 'b) \<Rightarrow> exn + 'b" where
  "and_then m f = (case m of Inl e \<Rightarrow> Inl e | Inr v \<Rightarrow> f v)"

fun type_name :: "json \<Rightarrow> string" where
  "type_name JNull = ''NoneType''"
| "type_name (JBool _) = ''bool''"
| "type_name (JInt _) = ''int''"
| "type_name (JFloat _ _) = ''float''"
| "type_name (JStr _) = ''str''"
| "type_name (JList _) = ''list''"
| "type_name (JDict _) = ''dict''"

text \<open>\<^verbatim>\<open>obj[key]\<close> with a string key.\<close>

fun subscript :: "json \<Rightarrow> string \<Rightarrow> exn + json" where
  "subscript (JDict kvs) key =
     (case map_of kvs key of None \<Rightarrow> Inl (KeyError key) | Some v \<Rightarrow> Inr v)"
| "subscript (JList _) key = Inl (TypeError ''list indices must be integers or slices, not str'')"
| "subscript (JStr _) key = Inl (TypeError (''string indices must be integers, not '' @ quoted ''str''))"
| "subscript v key = Inl (TypeError (quoted (type_name v) @ '' object is not subscriptable''))"

text \<open>\<^verbatim>\<open>key in obj\<close> with a string key: a key of a dict, an element of a list, a substring
  of a string.\<close>

fun contains :: "string \<Rightarrow> json \<Rightarrow> exn + bool" where
  "contains key (JDict kvs) = Inr (map_of kvs key \<noteq> None)"
| "contains key (JList xs) = Inr (JStr key \<in> set xs)"
| "contains key (JStr s) = Inr (sublist key s)"
| "contains key v = Inl (TypeError (''argument of type '' @ quoted (type_name v) @ '' is not iterable''))"

text \<open>Truth value of an object, as \<^verbatim>\<open>not x\<close> and \<^verbatim>\<open>if x\<close> test it.\<close>

fun truthy :: "json \<Rightarrow> bool" where
  "truthy JNull = False"
| "truthy (JBool b) = b"
| "truthy (JInt i) = (i \<noteq> 0)"
| "truthy (JFloat m e) = (m \<noteq> 0)"
| "truthy (JStr s) = (s \<noteq> [])"
| "truthy (JList xs) = (xs \<noteq> [])"
| "truthy (JDict kvs) = (kvs \<noteq> [])"

text \<open>\<^verbatim>\<open>len(obj)\<close> and \<^verbatim>\<open>for x in obj\<close>.\<close>

fun py_len :: "json \<Rightarrow> exn + nat" where
  "py_len (JList xs) = Inr (length xs)"
| "py_len (JDict kvs) = Inr (length (remdups (map fst kvs)))"
| "py_len (JStr s) = Inr (length s)"
| "py_len v = Inl (TypeError (''object of type '' @ quoted (type_name v) @ '' has no len()''))"

fun py_iter :: "json \<Rightarrow> exn + json list" where
  "py_iter (JList xs) = Inr xs"
| "py_iter (JDict kvs) = Inr (map JStr (remdups (map fst kvs)))"
| "py_iter (JStr s) = Inr (map (\<lambda>c. JStr [c]) s)"
| "py_iter v = Inl (TypeError (quoted (type_name v) @ '' object is not iterable''))"

subsection \<open>Hexadecimal strings and byte strings\<close>

fun dec :: "nat \<Rightarrow> string" where
  "dec n = (if n < 10 then [''0123456789'' ! n] else dec (n div 10) @ [''0123456789'' ! (n mod 10)])"

declare dec.simps [simp del]

definition is_space :: "char \<Rightarrow> bool" where
  "is_space c = (c \<in> set [CHR 0x20, CHR 0x09, CHR 0x0A, CHR 0x0B, CHR 0x0C, CHR 0x0D])"

definition hex_value :: "char \<Rightarrow> nat option" where
  "hex_value c =
     (let n = of_char c :: nat in
      if 48 \<le> n \<and> n \<le> 57 then Some (n - 48)
      else if 97 \<le> n \<and> n \<le> 102 then Some (n - 87)
      else if 65 \<le> n \<and> n \<le> 70 then Some (n - 55)
      else None)"

definition fromhex_error :: "nat \<Rightarrow> exn" where
  "fromhex_error pos =
     ValueError (''non-hexadecimal number found in fromhex() arg at position '' @ dec pos)"

text \<open>
  The loop of \<^verbatim>\<open>bytes.fromhex\<close>: white space is skipped before a pair of digits, never
  inside one; \<open>pos\<close> is the index of the next character.
\<close>

fun fromhex_from :: "nat \<Rightarrow> string \<Rightarrow> exn + bytes" where
  "fromhex_from pos [] = Inr []"
| "fromhex_from pos (c # cs) =
     (if is_space c then fromhex_from (Suc pos) cs
      else case hex_value c of
        None \<Rightarrow> Inl (fromhex_error pos)
      | Some hi \<Rightarrow>
          (case cs of
             [] \<Rightarrow> Inl (fromhex_error (Suc pos))
           | d # ds \<Rightarrow>
               (case hex_value d of
                  None \<Rightarrow> Inl (fromhex_error (Suc pos))
                | Some lo \<Rightarrow>
                    and_then (fromhex_from (Suc (Suc pos)) ds)
                      (\<lambda>rest. Inr (of_nat (hi * 16 + lo) # rest)))))"

text \<open>\<^verbatim>\<open>bytes.fromhex(x)\<close>: a string with a character outside ASCII is refused at the
  first such character, anything that is not a string is a type error.\<close>

fun first_non_ascii :: "nat \<Rightarrow> string \<Rightarrow> nat option" where
  "first_non_ascii pos [] = None"
| "first_non_ascii pos (c # cs) =
     (if 128 \<le> (of_char c :: nat) then Some pos else first_non_ascii (Suc pos) cs)"

fun fromhex :: "json \<Rightarrow> exn + bytes" where
  "fromhex (JStr s) =
     (case first_non_ascii 0 s of
        Some i \<Rightarrow> Inl (fromhex_error i)
      | None \<Rightarrow> fromhex_from 0 s)"
| "fromhex v = Inl (TypeError (''fromhex() argument must be str, not '' @ type_name v))"

definition hex_digit :: "nat \<Rightarrow> char" where
  "hex_digit n = ''0123456789abcdef'' ! n"

text \<open>\<^verbatim>\<open>b.hex()\<close>: two lower-case digits per byte.\<close>

definition hex :: "bytes \<Rightarrow> string" where
  "hex bs = concat (map (\<lambda>b. [hex_digit (unat b div 16), hex_digit (unat b mod 16)]) bs)"

text \<open>\<^verbatim>\<open>int.from_bytes(b, "big")\<close>.\<close>

definition from_bytes_big :: "bytes \<Rightarrow> int" where
  "from_bytes_big bs = foldl (\<lambda>acc b. acc * 256 + uint b) 0 bs"

section \<open>The external cryptography package\<close>

text \<open>
  The script calls the \<^verbatim>\<open>cryptography\<close> package for every primitive. Its functions
  are parameters of the model, with the exceptions they can raise:
  \<^verbatim>\<open>Ed25519PrivateKey.from_private_bytes\<close>, \<^verbatim>\<open>sign\<close>, \<^verbatim>\<open>ec.derive_private_key\<close>,
  \<^verbatim>\<open>public_key\<close>, \<^verbatim>\<open>utils.encode_dss_signature\<close> and \<^verbatim>\<open>verify\<close> with
  \<^verbatim>\<open>ECDSA(Prehashed(SHA256()))\<close>. \<open>str_other\<close> is the interpreter's \<^verbatim>\<open>str()\<close> on
  values that are not strings, which the f-strings call.
\<close>

datatype curve = SECP256K1 | SECP256R1

record ('edk, 'eck, 'ecp, 'der) library =
  from_private_bytes :: "bytes \<Rightarrow> exn + 'edk"
  sign :: "'edk \<Rightarrow> bytes \<Rightarrow> exn + bytes"
  derive_private_key :: "int \<Rightarrow> curve \<Rightarrow> exn + 'eck"
  public_key :: "'eck \<Rightarrow> 'ecp"
  encode_dss_signature :: "int \<Rightarrow> int \<Rightarrow> exn + 'der"
  verify :: "'ecp \<Rightarrow> 'der \<Rightarrow> bytes \<Rightarrow> exn + unit"
  str_other :: "json \<Rightarrow> string"

text \<open>\<^verbatim>\<open>f"{x}"\<close>: a string is inserted as it is.\<close>

definition py_str :: "('edk, 'eck, 'ecp, 'der) library \<Rightarrow> json \<Rightarrow> string" where
  "py_str L v = (case v of JStr s \<Rightarrow> s | _ \<Rightarrow> str_other L v)"

section \<open>The Ed25519 check\<close>

text \<open>
  An outcome is the pair the source returns: \<open>Some True\<close> is Valid, \<open>Some False\<close> is
  Invalid, \<open>None\<close> is Skipped, with the message.
\<close>

type_synonym outcome = "bool option \<times> string"

text \<open>Lines 62 to 69 of \<^verbatim>\<open>validate_ed25519\<close>: \<open>None\<close> when the family is absent.\<close>

definition ed25519_fields :: "json \<Rightarrow> exn + (json \<times> json \<times> json) option" where
  "ed25519_fields vector =
     and_then (subscript vector ''expected'') (\<lambda>expected.
     and_then (subscript expected ''signatures'') (\<lambda>sigs.
     and_then (contains ''ed25519'' sigs) (\<lambda>present.
     if \<not> present then Inr None
     else
       and_then (subscript sigs ''ed25519'') (\<lambda>ed25519_data.
       and_then (subscript ed25519_data ''private_key_hex'') (\<lambda>priv_key_hex.
       and_then (subscript ed25519_data ''signature_hex'') (\<lambda>expected_sig_hex.
       and_then (subscript vector ''expected'') (\<lambda>expected2.
       and_then (subscript expected2 ''sign_bytes_hex'') (\<lambda>sign_bytes_hex.
       Inr (Some (priv_key_hex, expected_sig_hex, sign_bytes_hex))))))))))"

text \<open>Lines 73 to 85: the seed, the key and the signature of the digest.\<close>

definition ed25519_recompute ::
  "('edk, 'eck, 'ecp, 'der) library \<Rightarrow> json \<Rightarrow> json \<Rightarrow> exn + bytes" where
  "ed25519_recompute L priv_key_hex sign_bytes_hex =
     and_then (fromhex priv_key_hex) (\<lambda>priv_key_bytes.
     let seed = (if length priv_key_bytes = 64 then take 32 priv_key_bytes else priv_key_bytes) in
     and_then (from_private_bytes L seed) (\<lambda>private_key.
     and_then (fromhex sign_bytes_hex) (\<lambda>message.
     sign L private_key message)))"

definition newline :: string where
  "newline = [CHR 0x0A]"

definition validate_ed25519_body ::
  "('edk, 'eck, 'ecp, 'der) library \<Rightarrow> json \<Rightarrow> exn + outcome" where
  "validate_ed25519_body L vector =
     and_then (ed25519_fields vector) (\<lambda>fields.
     case fields of
       None \<Rightarrow> Inr (None, ''No ed25519 signature in vector'')
     | Some (priv_key_hex, expected_sig_hex, sign_bytes_hex) \<Rightarrow>
         and_then (ed25519_recompute L priv_key_hex sign_bytes_hex) (\<lambda>signature.
         let actual_sig_hex = hex signature in
         if JStr actual_sig_hex = expected_sig_hex
         then Inr (Some True, ''Ed25519 signature matches: '' @ take 32 actual_sig_hex @ ''...'')
         else Inr (Some False,
                ''Ed25519 mismatch!'' @ newline @ ''  Expected: '' @ py_str L expected_sig_hex
                @ newline @ ''  Got:      '' @ actual_sig_hex)))"

text \<open>The \<^verbatim>\<open>try\<close> block with its \<^verbatim>\<open>except Exception\<close> clause (lines 61, 94, 95).\<close>

definition validate_ed25519 :: "('edk, 'eck, 'ecp, 'der) library \<Rightarrow> json \<Rightarrow> outcome" where
  "validate_ed25519 L vector =
     (case validate_ed25519_body L vector of
        Inl e \<Rightarrow> (Some False, ''Ed25519 validation error: '' @ exn_str e)
      | Inr r \<Rightarrow> r)"

section \<open>The ECDSA checks\<close>

text \<open>
  \<^verbatim>\<open>validate_secp256k1\<close> and \<^verbatim>\<open>validate_secp256r1\<close> are the same text up to the
  family name, the curve and the constant \<open>n\<close>; the common text is written once, with
  these three as arguments.
\<close>

text \<open>Lines 111 to 119 (178 to 186): \<open>None\<close> when the family is absent.\<close>

definition ecdsa_fields :: "string \<Rightarrow> json \<Rightarrow> exn + (json \<times> json \<times> json \<times> json) option" where
  "ecdsa_fields fam vector =
     and_then (subscript vector ''expected'') (\<lambda>expected.
     and_then (subscript expected ''signatures'') (\<lambda>sigs.
     and_then (contains fam sigs) (\<lambda>present.
     if \<not> present then Inr None
     else
       and_then (subscript sigs fam) (\<lambda>secp_data.
       and_then (subscript secp_data ''private_key_hex'') (\<lambda>priv_key_hex.
       and_then (subscript secp_data ''public_key_hex'') (\<lambda>pub_key_hex.
       and_then (subscript secp_data ''signature_hex'') (\<lambda>expected_sig_hex.
       and_then (subscript vector ''expected'') (\<lambda>expected2.
       and_then (subscript expected2 ''sign_bytes_hex'') (\<lambda>sign_bytes_hex.
       Inr (Some (priv_key_hex, pub_key_hex, expected_sig_hex, sign_bytes_hex)))))))))))"

text \<open>Lines 124 to 140 (191 to 207): the public key rebuilt from the private key, the
  digest, and \<open>R\<close> and \<open>S\<close> cut at byte 32 of the claimed signature.\<close>

definition ecdsa_decode ::
  "('edk, 'eck, 'ecp, 'der) library \<Rightarrow> curve \<Rightarrow> json \<Rightarrow> json \<Rightarrow> json
     \<Rightarrow> exn + ('ecp \<times> bytes \<times> int \<times> int)" where
  "ecdsa_decode L crv priv_key_hex sign_bytes_hex expected_sig_hex =
     and_then (fromhex priv_key_hex) (\<lambda>priv_key_bytes.
     let priv_key_int = from_bytes_big priv_key_bytes in
     and_then (derive_private_key L priv_key_int crv) (\<lambda>private_key.
     let pub = public_key L private_key in
     and_then (fromhex sign_bytes_hex) (\<lambda>message_hash.
     and_then (fromhex expected_sig_hex) (\<lambda>expected_sig_bytes.
     let expected_r = from_bytes_big (take 32 expected_sig_bytes);
         expected_s = from_bytes_big (drop 32 expected_sig_bytes)
     in Inr (pub, message_hash, expected_r, expected_s)))))"

text \<open>Lines 144 to 157 (211 to 224): the first encoding is outside the inner
  \<^verbatim>\<open>try\<close>, the second encoding is inside the first \<^verbatim>\<open>except\<close> clause and outside the
  second \<^verbatim>\<open>try\<close>, so both can raise out of the block.\<close>

definition ecdsa_verify_either ::
  "('edk, 'eck, 'ecp, 'der) library \<Rightarrow> int \<Rightarrow> 'ecp \<Rightarrow> bytes \<Rightarrow> int \<Rightarrow> int \<Rightarrow> exn + bool" where
  "ecdsa_verify_either L n pub message_hash expected_r expected_s =
     and_then (encode_dss_signature L expected_r expected_s) (\<lambda>expected_sig_der.
     case verify L pub expected_sig_der message_hash of
       Inr _ \<Rightarrow> Inr True
     | Inl _ \<Rightarrow>
         (let alt_s = n - expected_s in
          and_then (encode_dss_signature L expected_r alt_s) (\<lambda>alt_sig_der.
          case verify L pub alt_sig_der message_hash of
            Inr _ \<Rightarrow> Inr True
          | Inl _ \<Rightarrow> Inr False)))"

text \<open>\<^verbatim>\<open>x[:32]\<close> in the message of a verified signature.\<close>

fun slice32 :: "('edk, 'eck, 'ecp, 'der) library \<Rightarrow> json \<Rightarrow> exn + string" where
  "slice32 L (JStr s) = Inr (take 32 s)"
| "slice32 L (JList xs) = Inr (py_str L (JList (take 32 xs)))"
| "slice32 L v = Inl (TypeError (quoted (type_name v) @ '' object is not subscriptable''))"

definition validate_ecdsa_body ::
  "('edk, 'eck, 'ecp, 'der) library \<Rightarrow> string \<Rightarrow> curve \<Rightarrow> int \<Rightarrow> json \<Rightarrow> exn + outcome" where
  "validate_ecdsa_body L fam crv n vector =
     and_then (ecdsa_fields fam vector) (\<lambda>fields.
     case fields of
       None \<Rightarrow> Inr (None, ''No '' @ fam @ '' signature in vector'')
     | Some (priv_key_hex, pub_key_hex, expected_sig_hex, sign_bytes_hex) \<Rightarrow>
         if \<not> truthy expected_sig_hex
         then Inr (None, ''Empty signature (seed derivation only)'')
         else
           and_then (ecdsa_decode L crv priv_key_hex sign_bytes_hex expected_sig_hex)
             (\<lambda>(pub, message_hash, expected_r, expected_s).
           and_then (ecdsa_verify_either L n pub message_hash expected_r expected_s)
             (\<lambda>sig_verifies.
           if sig_verifies
           then and_then (slice32 L expected_sig_hex) (\<lambda>shown.
                  Inr (Some True, fam @ '' signature verified: '' @ shown @ ''...''))
           else Inr (Some False, fam @ '' signature verification FAILED''))))"

definition validate_ecdsa ::
  "('edk, 'eck, 'ecp, 'der) library \<Rightarrow> string \<Rightarrow> curve \<Rightarrow> int \<Rightarrow> json \<Rightarrow> outcome" where
  "validate_ecdsa L fam crv n vector =
     (case validate_ecdsa_body L fam crv n vector of
        Inl e \<Rightarrow> (Some False, fam @ '' validation error: '' @ exn_str e)
      | Inr r \<Rightarrow> r)"

definition n_secp256k1 :: int where
  "n_secp256k1 = 0xFFFFFFFFFFFFFFFFFFFFFFFFFFFFFFFEBAAEDCE6AF48A03BBFD25E8CD0364141"

definition n_secp256r1 :: int where
  "n_secp256r1 = 0xFFFFFFFF00000000FFFFFFFFFFFFFFFFBCE6FAADA7179E84F3B9CAC2FC632551"

definition validate_secp256k1 :: "('edk, 'eck, 'ecp, 'der) library \<Rightarrow> json \<Rightarrow> outcome" where
  "validate_secp256k1 L vector = validate_ecdsa L ''secp256k1'' SECP256K1 n_secp256k1 vector"

definition validate_secp256r1 :: "('edk, 'eck, 'ecp, 'der) library \<Rightarrow> json \<Rightarrow> outcome" where
  "validate_secp256r1 L vector = validate_ecdsa L ''secp256r1'' SECP256R1 n_secp256r1 vector"

section \<open>One vector, the run and the exit code\<close>

text \<open>
  \<^verbatim>\<open>validate_vector\<close>: the name is read outside every \<^verbatim>\<open>try\<close> block; an outcome
  that is \<^verbatim>\<open>None\<close> gets no entry in \<^verbatim>\<open>algorithms\<close>. An entry
  \<^verbatim>\<open>{"passed": result, "message": message}\<close> is the pair \<open>(result, message)\<close>.
\<close>

record vector_result =
  name :: json
  algorithms :: "(string \<times> bool \<times> string) list"

definition add_algorithm ::
  "string \<Rightarrow> outcome \<Rightarrow> (string \<times> bool \<times> string) list \<Rightarrow> (string \<times> bool \<times> string) list" where
  "add_algorithm algo out algos =
     (case fst out of None \<Rightarrow> algos | Some result \<Rightarrow> algos @ [(algo, result, snd out)])"

definition validate_vector ::
  "('edk, 'eck, 'ecp, 'der) library \<Rightarrow> json \<Rightarrow> exn + vector_result" where
  "validate_vector L vector =
     and_then (subscript vector ''name'') (\<lambda>nm.
     let algos = [];
         algos = add_algorithm ''ed25519'' (validate_ed25519 L vector) algos;
         algos = add_algorithm ''secp256k1'' (validate_secp256k1 L vector) algos;
         algos = add_algorithm ''secp256r1'' (validate_secp256r1 L vector) algos
     in Inr \<lparr>name = nm, algorithms = algos\<rparr>)"

text \<open>\<^verbatim>\<open>self.results\<close>: identifiers in \<open>passed\<close> and \<open>failed\<close>, the names as they were
  loaded in \<open>skipped\<close>.\<close>

record results =
  passed :: "string list"
  failed :: "string list"
  skipped :: "json list"

text \<open>The inner loop of \<^verbatim>\<open>run\<close> (lines 274 to 283), on \<open>(vector_passed, results)\<close>.\<close>

fun classify :: "string \<Rightarrow> (string \<times> bool \<times> string) list \<Rightarrow> bool \<times> results \<Rightarrow> bool \<times> results" where
  "classify nm [] st = st"
| "classify nm ((algo, ok, msg) # rest) (vector_passed, res) =
     (if ok
      then classify nm rest (vector_passed, res\<lparr>passed := passed res @ [nm @ '':'' @ algo]\<rparr>)
      else classify nm rest (False, res\<lparr>failed := failed res @ [nm @ '':'' @ algo]\<rparr>))"

text \<open>The outer loop (lines 265 to 286), on \<open>(all_passed, results)\<close>; an exception of
  \<^verbatim>\<open>validate_vector\<close> leaves the loop and the function.\<close>

fun run_loop ::
  "('edk, 'eck, 'ecp, 'der) library \<Rightarrow> json list \<Rightarrow> bool \<times> results \<Rightarrow> exn + bool \<times> results" where
  "run_loop L [] st = Inr st"
| "run_loop L (vector # rest) (all_passed, res) =
     and_then (validate_vector L vector) (\<lambda>result.
     if algorithms result = []
     then run_loop L rest (all_passed, res\<lparr>skipped := skipped res @ [name result]\<rparr>)
     else
       (let (vector_passed, res2) = classify (py_str L (name result)) (algorithms result) (True, res)
        in run_loop L rest (if \<not> vector_passed then False else all_passed, res2)))"

definition no_results :: results where
  "no_results = \<lparr>passed = [], failed = [], skipped = []\<rparr>"

text \<open>
  \<^verbatim>\<open>run\<close>: \<open>loaded\<close> is what \<^verbatim>\<open>load_vectors\<close> returns or raises. The lines printed
  are not part of the model, but the expressions they evaluate are.
\<close>

definition run ::
  "('edk, 'eck, 'ecp, 'der) library \<Rightarrow> exn + json \<Rightarrow> exn + bool \<times> results" where
  "run L loaded =
     and_then loaded (\<lambda>data.
     and_then (subscript data ''vectors'') (\<lambda>vs.
     and_then (py_len vs) (\<lambda>count.
     and_then (subscript data ''vectors'') (\<lambda>vectors.
     and_then (py_iter vectors) (\<lambda>items.
     run_loop L items (True, no_results))))))"

text \<open>
  \<^verbatim>\<open>main\<close>: \<open>file_exists\<close> is \<^verbatim>\<open>args.vectors_file.exists()\<close>; \<open>json_output\<close> is
  \<open>None\<close> without \<^verbatim>\<open>--json-output\<close>, and otherwise what writing the file does
  (\<open>None\<close> when it is written, the exception when it is not). An exception that
  nothing catches ends the interpreter with exit status 1.
\<close>

record exit =
  exit_code :: int
  report :: "results option"

definition main ::
  "('edk, 'eck, 'ecp, 'der) library \<Rightarrow> bool \<Rightarrow> exn + json \<Rightarrow> exn option option \<Rightarrow> exit" where
  "main L file_exists loaded json_output =
     (if \<not> file_exists then \<lparr>exit_code = 1, report = None\<rparr>
      else case run L loaded of
        Inl e \<Rightarrow> \<lparr>exit_code = 1, report = None\<rparr>
      | Inr (success, res) \<Rightarrow>
          (case json_output of
             None \<Rightarrow> \<lparr>exit_code = (if success then 0 else 1), report = None\<rparr>
           | Some (Some e) \<Rightarrow> \<lparr>exit_code = 1, report = None\<rparr>
           | Some None \<Rightarrow> \<lparr>exit_code = (if success then 0 else 1), report = Some res\<rparr>))"

text \<open>The module: the import guard of lines 27 to 35, then \<^verbatim>\<open>main()\<close>.\<close>

definition script ::
  "bool \<Rightarrow> ('edk, 'eck, 'ecp, 'der) library \<Rightarrow> bool \<Rightarrow> exn + json \<Rightarrow> exn option option \<Rightarrow> exit" where
  "script cryptography_installed L file_exists loaded json_output =
     (if \<not> cryptography_installed then \<lparr>exit_code = 1, report = None\<rparr>
      else main L file_exists loaded json_output)"

section \<open>A stand-in for the library\<close>

text \<open>
  A small library to run the checks on concrete vectors. It is not Ed25519 nor ECDSA: a
  signature is 64 bytes made of the seed and the digest; a key is its scalar, which must
  lie strictly between 0 and the order of the curve; \<open>(r, s)\<close> verifies for the key
  \<open>k\<close> and a 32-byte digest \<open>h\<close> when \<open>r = k\<close> and \<open>s = (h + k) mod 251\<close>.
  Negative integers have no encoding.
\<close>

definition stub_from_private_bytes :: "bytes \<Rightarrow> exn + bytes" where
  "stub_from_private_bytes seed =
     (if length seed = 32 then Inr seed
      else Inl (ValueError ''An Ed25519 private key is 32 bytes long''))"

definition stub_sign :: "bytes \<Rightarrow> bytes \<Rightarrow> exn + bytes" where
  "stub_sign seed message = Inr (seed @ take 32 (message @ replicate 32 0))"

definition stub_order :: "curve \<Rightarrow> int" where
  "stub_order crv = (case crv of SECP256K1 \<Rightarrow> n_secp256k1 | SECP256R1 \<Rightarrow> n_secp256r1)"

definition stub_derive_private_key :: "int \<Rightarrow> curve \<Rightarrow> exn + int" where
  "stub_derive_private_key k crv =
     (if 0 < k \<and> k < stub_order crv then Inr k
      else Inl (ValueError ''Invalid EC key''))"

definition stub_encode_dss_signature :: "int \<Rightarrow> int \<Rightarrow> exn + int \<times> int" where
  "stub_encode_dss_signature r s =
     (if r < 0 \<or> s < 0 then Inl (ValueError ''Negative integers are not supported'')
      else Inr (r, s))"

definition stub_verify :: "int \<Rightarrow> int \<times> int \<Rightarrow> bytes \<Rightarrow> exn + unit" where
  "stub_verify k der message_hash =
     (if length message_hash = 32 \<and> fst der = k
         \<and> snd der = (from_bytes_big message_hash + k) mod 251
      then Inr () else Inl InvalidSignature)"

definition stub_library :: "(bytes, int, int, int \<times> int) library" where
  "stub_library =
     \<lparr>from_private_bytes = stub_from_private_bytes,
      sign = stub_sign,
      derive_private_key = stub_derive_private_key,
      public_key = (\<lambda>k. k),
      encode_dss_signature = stub_encode_dss_signature,
      verify = stub_verify,
      str_other = (\<lambda>v. ''<'' @ type_name v @ ''>'')\<rparr>"

section \<open>Notions of the specification\<close>

text \<open>A family is present when the membership test of the checks succeeds.\<close>

definition family_present :: "string \<Rightarrow> json \<Rightarrow> bool" where
  "family_present fam vector =
     (case subscript vector ''expected'' of Inl _ \<Rightarrow> False | Inr expected \<Rightarrow>
     (case subscript expected ''signatures'' of Inl _ \<Rightarrow> False | Inr sigs \<Rightarrow>
        contains fam sigs = Inr True))"

text \<open>The claimed signature of a family: \<^verbatim>\<open>expected.signatures.<family>.signature_hex\<close>.\<close>

definition claimed_signature :: "string \<Rightarrow> json \<Rightarrow> json option" where
  "claimed_signature fam vector =
     (case subscript vector ''expected'' of Inl _ \<Rightarrow> None | Inr expected \<Rightarrow>
     (case subscript expected ''signatures'' of Inl _ \<Rightarrow> None | Inr sigs \<Rightarrow>
     (case subscript sigs fam of Inl _ \<Rightarrow> None | Inr family_data \<Rightarrow>
     (case subscript family_data ''signature_hex'' of Inl _ \<Rightarrow> None | Inr s \<Rightarrow> Some s))))"

text \<open>A signature \<open>(r, s)\<close> verifies when it can be encoded and \<^verbatim>\<open>verify\<close> returns.\<close>

definition signature_verifies ::
  "('edk, 'eck, 'ecp, 'der) library \<Rightarrow> 'ecp \<Rightarrow> bytes \<Rightarrow> int \<Rightarrow> int \<Rightarrow> bool" where
  "signature_verifies L pub message_hash r s =
     (case encode_dss_signature L r s of
        Inl _ \<Rightarrow> False
      | Inr der \<Rightarrow> (case verify L pub der message_hash of Inl _ \<Rightarrow> False | Inr _ \<Rightarrow> True))"

text \<open>The claimed signature of the family decodes, and verifies with \<open>S\<close> as decoded or
  with \<open>n - S\<close>.\<close>

definition either_verifies ::
  "('edk, 'eck, 'ecp, 'der) library \<Rightarrow> string \<Rightarrow> curve \<Rightarrow> int \<Rightarrow> json \<Rightarrow> bool" where
  "either_verifies L fam crv n vector =
     (case ecdsa_fields fam vector of
        Inr (Some (priv_key_hex, pub_key_hex, expected_sig_hex, sign_bytes_hex)) \<Rightarrow>
          (case ecdsa_decode L crv priv_key_hex sign_bytes_hex expected_sig_hex of
             Inr (pub, message_hash, r, s) \<Rightarrow>
               signature_verifies L pub message_hash r s
               \<or> signature_verifies L pub message_hash r (n - s)
           | Inl _ \<Rightarrow> False)
      | _ \<Rightarrow> False)"

text \<open>What the script relies on from \<^verbatim>\<open>encode_dss_signature\<close>: two integers that are
  not negative always have an encoding.\<close>

definition accepts_nonneg :: "('edk, 'eck, 'ecp, 'der) library \<Rightarrow> bool" where
  "accepts_nonneg L = (\<forall>r s. 0 \<le> r \<longrightarrow> 0 \<le> s \<longrightarrow> \<not> isl (encode_dss_signature L r s))"

text \<open>The recomputed Ed25519 signature exists and its hexadecimal text is the claimed one.\<close>

definition ed25519_matches :: "('edk, 'eck, 'ecp, 'der) library \<Rightarrow> json \<Rightarrow> bool" where
  "ed25519_matches L vector =
     (case ed25519_fields vector of
        Inr (Some (priv_key_hex, expected_sig_hex, sign_bytes_hex)) \<Rightarrow>
          (case ed25519_recompute L priv_key_hex sign_bytes_hex of
             Inr signature \<Rightarrow> expected_sig_hex = JStr (hex signature)
           | Inl _ \<Rightarrow> False)
      | _ \<Rightarrow> False)"

text \<open>The three checks of a vector, in the order of \<^verbatim>\<open>validate_vector\<close>.\<close>

definition outcomes :: "('edk, 'eck, 'ecp, 'der) library \<Rightarrow> json \<Rightarrow> (string \<times> outcome) list" where
  "outcomes L vector =
     [(''ed25519'', validate_ed25519 L vector),
      (''secp256k1'', validate_secp256k1 L vector),
      (''secp256r1'', validate_secp256r1 L vector)]"

text \<open>The identifiers \<^verbatim>\<open><name>:<family>\<close> of the checks of a vector whose result is
  \<open>b\<close>, and the vectors all of whose checks are skipped.\<close>

definition identifiers :: "('edk, 'eck, 'ecp, 'der) library \<Rightarrow> bool \<Rightarrow> json \<Rightarrow> string list" where
  "identifiers L b vector =
     (case subscript vector ''name'' of
        Inl _ \<Rightarrow> []
      | Inr nm \<Rightarrow>
          map (\<lambda>(fam, out). py_str L nm @ '':'' @ fam)
            (filter (\<lambda>(fam, out). fst out = Some b) (outcomes L vector)))"

definition fully_skipped :: "('edk, 'eck, 'ecp, 'der) library \<Rightarrow> json \<Rightarrow> bool" where
  "fully_skipped L vector = list_all (\<lambda>(fam, out). fst out = None) (outcomes L vector)"

definition skipped_names :: "('edk, 'eck, 'ecp, 'der) library \<Rightarrow> json list \<Rightarrow> json list" where
  "skipped_names L vectors =
     concat (map (\<lambda>vector. case subscript vector ''name'' of
                              Inl _ \<Rightarrow> []
                            | Inr nm \<Rightarrow> if fully_skipped L vector then [nm] else []) vectors)"

text \<open>The vectors the loop of \<^verbatim>\<open>run\<close> goes through; none when the input cannot be
  iterated.\<close>

definition loaded_vectors :: "exn + json \<Rightarrow> json list" where
  "loaded_vectors loaded =
     (case loaded of Inl _ \<Rightarrow> [] | Inr data \<Rightarrow>
     (case subscript data ''vectors'' of Inl _ \<Rightarrow> [] | Inr vectors \<Rightarrow>
     (case py_iter vectors of Inl _ \<Rightarrow> [] | Inr items \<Rightarrow> items)))"

text \<open>A vector with another value in the \<^verbatim>\<open>public_key_hex\<close> entry of a family, and
  nothing else changed.\<close>

definition update_entry :: "string \<Rightarrow> (json \<Rightarrow> json) \<Rightarrow> json \<Rightarrow> json" where
  "update_entry key f v =
     (case v of
        JDict kvs \<Rightarrow> JDict (map (\<lambda>(k, x). if k = key then (k, f x) else (k, x)) kvs)
      | _ \<Rightarrow> v)"

definition with_public_key :: "string \<Rightarrow> json \<Rightarrow> json \<Rightarrow> json" where
  "with_public_key fam pub vector =
     update_entry ''expected''
       (update_entry ''signatures''
         (update_entry fam
           (update_entry ''public_key_hex'' (\<lambda>_. pub)))) vector"

subsection \<open>Concrete vectors\<close>

text \<open>Vectors in the input format: a name, the digest of 32 zero bytes, and the entries of
  the families.\<close>

definition zeros32 :: string where
  "zeros32 = ''0000000000000000000000000000000000000000000000000000000000000000''"

definition one32 :: string where
  "one32 = ''0000000000000000000000000000000000000000000000000000000000000001''"

definition family_entry :: "string \<Rightarrow> string \<Rightarrow> string \<Rightarrow> json" where
  "family_entry priv pub sig =
     JDict [(''private_key_hex'', JStr priv), (''public_key_hex'', JStr pub),
            (''signature_hex'', JStr sig)]"

definition vector_of :: "string \<Rightarrow> (string \<times> json) list \<Rightarrow> json" where
  "vector_of nm sigs =
     JDict [(''name'', JStr nm),
            (''expected'', JDict [(''sign_bytes_hex'', JStr zeros32),
                                  (''signatures'', JDict sigs)])]"

text \<open>The same without a name.\<close>

definition nameless :: "(string \<times> json) list \<Rightarrow> json" where
  "nameless sigs =
     JDict [(''expected'', JDict [(''sign_bytes_hex'', JStr zeros32),
                                  (''signatures'', JDict sigs)])]"

definition vectors_file :: "json list \<Rightarrow> exn + json" where
  "vectors_file vectors = Inr (JDict [(''vectors'', JList vectors)])"

text \<open>A vector whose secp256k1 signature has the complement of the right \<open>S\<close>, and whose
  secp256r1 signature has a wrong \<open>S\<close>.\<close>

definition complement_sig :: string where
  "complement_sig = one32 @ ''fffffffffffffffffffffffffffffffebaaedce6af48a03bbfd25e8cd0364140''"

definition ecdsa_vector :: json where
  "ecdsa_vector =
     vector_of ''v''
       [(''secp256k1'', family_entry one32 [] complement_sig),
        (''secp256r1'', family_entry one32 [] (one32 @ ''02''))]"

text \<open>Ed25519 vectors: a private key that is not hexadecimal, a claimed signature that
  differs from the recomputed one, an empty claimed signature (in the three families),
  and the same seed as 32 and as 64 bytes.\<close>

definition ed25519_signature :: string where
  "ed25519_signature = one32 @ zeros32"

definition bad_key_vector :: json where
  "bad_key_vector = vector_of ''v'' [(''ed25519'', family_entry ''zz'' [] ed25519_signature)]"

definition mismatch_vector :: json where
  "mismatch_vector = vector_of ''v'' [(''ed25519'', family_entry one32 [] ''abcd'')]"

definition empty_signature_vector :: json where
  "empty_signature_vector =
     vector_of ''v''
       [(''ed25519'', family_entry one32 [] []),
        (''secp256k1'', family_entry one32 [] []),
        (''secp256r1'', family_entry one32 [] [])]"

definition seed_vector :: json where
  "seed_vector = vector_of ''v'' [(''ed25519'', family_entry one32 [] ed25519_signature)]"

definition ones32 :: string where
  "ones32 = ''ffffffffffffffffffffffffffffffffffffffffffffffffffffffffffffffff''"

definition expanded_key_vector :: json where
  "expanded_key_vector =
     vector_of ''v'' [(''ed25519'', family_entry (one32 @ ones32) [] ed25519_signature)]"

text \<open>A secp256k1 vector whose claimed signature has 33 bytes.\<close>

definition long_signature_vector :: json where
  "long_signature_vector = vector_of ''v'' [(''secp256k1'', family_entry one32 [] (one32 @ ''01''))]"

text \<open>The entries that \<^verbatim>\<open>validate_vector\<close> keeps of a list of outcomes.\<close>

definition recorded :: "(string \<times> outcome) list \<Rightarrow> (string \<times> bool \<times> string) list" where
  "recorded outs =
     concat (map (\<lambda>(fam, out). case fst out of None \<Rightarrow> [] | Some b \<Rightarrow> [(fam, b, snd out)]) outs)"

text \<open>A vector with a valid Ed25519 signature and an empty secp256k1 signature.\<close>

definition mixed_vector :: json where
  "mixed_vector =
     vector_of ''v''
       [(''ed25519'', family_entry one32 [] ed25519_signature),
        (''secp256k1'', family_entry one32 [] [])]"

text \<open>Inputs of a run: two vectors of which the second has no family; a vector with an
  Invalid outcome; a vector without a name between two others.\<close>

definition skipping_file :: "exn + json" where
  "skipping_file = vectors_file [mixed_vector, vector_of ''w'' []]"



section \<open>Proofs\<close>

subsection \<open>Sequencing and byte strings\<close>

lemma and_then_Inl [simp]: "and_then (Inl e) f = Inl e"
  by (simp add: and_then_def)

lemma and_then_Inr [simp]: "and_then (Inr x) f = f x"
  by (simp add: and_then_def)

lemma and_then_eq_Inr: "and_then m f = Inr y \<longleftrightarrow> (\<exists>x. m = Inr x \<and> f x = Inr y)"
  by (cases m) simp_all

lemma from_bytes_big_acc:
  "0 \<le> acc \<Longrightarrow> 0 \<le> foldl (\<lambda>acc b. acc * 256 + uint b) acc (bs :: bytes)"
  by (induction bs arbitrary: acc) simp_all

lemma from_bytes_big_nonneg: "0 \<le> from_bytes_big bs"
  by (simp add: from_bytes_big_def from_bytes_big_acc)

lemma subscript_Inr_contains: "subscript d key = Inr x \<Longrightarrow> contains key d = Inr True"
  by (cases d) (auto split: option.splits)

text \<open>The definitions that \<open>simp\<close> unfolds to run the model on a concrete vector.\<close>

lemmas run_defs =
  Let_def dec.simps hex_value_def is_space_def hex_def hex_digit_def from_bytes_big_def
  fromhex_error_def quoted_def newline_def py_str_def
  ed25519_fields_def ed25519_recompute_def validate_ed25519_body_def validate_ed25519_def
  ecdsa_fields_def ecdsa_decode_def ecdsa_verify_either_def validate_ecdsa_body_def
  validate_ecdsa_def validate_secp256k1_def validate_secp256r1_def
  n_secp256k1_def n_secp256r1_def
  validate_vector_def add_algorithm_def run_def no_results_def main_def script_def
  stub_library_def stub_from_private_bytes_def stub_sign_def stub_order_def
  stub_derive_private_key_def stub_encode_dss_signature_def stub_verify_def
  zeros32_def one32_def family_entry_def vector_of_def nameless_def vectors_file_def
  complement_sig_def ecdsa_vector_def ed25519_signature_def bad_key_vector_def
  mismatch_vector_def empty_signature_vector_def seed_vector_def ones32_def
  expanded_key_vector_def long_signature_vector_def mixed_vector_def

subsection \<open>The ECDSA checks\<close>

lemma ecdsa_decode_nonneg:
  "ecdsa_decode L crv kh dh sh = Inr (pub, h, r, s) \<Longrightarrow> 0 \<le> r \<and> 0 \<le> s"
  by (auto simp: ecdsa_decode_def Let_def and_then_eq_Inr from_bytes_big_nonneg)

lemma ecdsa_verify_either_eq:
  assumes "accepts_nonneg L" "0 \<le> r" "0 \<le> s"
  shows "ecdsa_verify_either L n pub h r s =
           (if signature_verifies L pub h r s then Inr True
            else case encode_dss_signature L r (n - s) of
                   Inl e \<Rightarrow> Inl e
                 | Inr der \<Rightarrow> Inr (signature_verifies L pub h r (n - s)))"
proof -
  from assms have "\<not> isl (encode_dss_signature L r s)"
    by (simp add: accepts_nonneg_def)
  then obtain der where "encode_dss_signature L r s = Inr der"
    by (cases "encode_dss_signature L r s") simp_all
  then show ?thesis
    by (simp add: ecdsa_verify_either_def signature_verifies_def Let_def split: sum.splits)
qed

lemma slice32_of_hex: "fromhex x = Inr bs \<Longrightarrow> \<exists>s. slice32 L x = Inr s"
  by (cases x) simp_all

lemma validate_ecdsa_absent:
  "ecdsa_fields fam v = Inr None \<Longrightarrow>
   validate_ecdsa L fam crv n v = (None, ''No '' @ fam @ '' signature in vector'')"
  by (simp add: validate_ecdsa_def validate_ecdsa_body_def)

lemma validate_ecdsa_unreadable:
  "ecdsa_fields fam v = Inl e \<Longrightarrow>
   validate_ecdsa L fam crv n v = (Some False, fam @ '' validation error: '' @ exn_str e)"
  by (simp add: validate_ecdsa_def validate_ecdsa_body_def)

lemma validate_ecdsa_empty:
  "ecdsa_fields fam v = Inr (Some (kh, ph, sh, dh)) \<Longrightarrow> \<not> truthy sh \<Longrightarrow>
   validate_ecdsa L fam crv n v = (None, ''Empty signature (seed derivation only)'')"
  by (simp add: validate_ecdsa_def validate_ecdsa_body_def)

lemma validate_ecdsa_present:
  assumes "accepts_nonneg L"
    and "ecdsa_fields fam v = Inr (Some (kh, ph, sh, dh))" and "truthy sh"
  shows "fst (validate_ecdsa L fam crv n v) = Some (either_verifies L fam crv n v)"
proof (cases "ecdsa_decode L crv kh dh sh")
  case (Inl e)
  with assms show ?thesis
    by (simp add: validate_ecdsa_def validate_ecdsa_body_def either_verifies_def)
next
  case (Inr d)
  obtain pub h r s where d: "d = (pub, h, r, s)" by (cases d)
  from Inr d have "0 \<le> r \<and> 0 \<le> s" by (auto dest: ecdsa_decode_nonneg)
  then have nn: "0 \<le> r" "0 \<le> s" by simp_all
  from Inr d obtain bs where "fromhex sh = Inr bs"
    by (auto simp: ecdsa_decode_def Let_def and_then_eq_Inr)
  then obtain shown where sl: "slice32 L sh = Inr shown" using slice32_of_hex by blast
  show ?thesis using assms(2,3) Inr d sl
    by (auto simp: validate_ecdsa_def validate_ecdsa_body_def either_verifies_def
        ecdsa_verify_either_eq[OF assms(1) nn] signature_verifies_def split: sum.splits)
qed

lemma claimed_signature_fields:
  assumes "claimed_signature fam v = Some sh"
  shows "(\<exists>e. ecdsa_fields fam v = Inl e)
         \<or> (\<exists>kh ph dh. ecdsa_fields fam v = Inr (Some (kh, ph, sh, dh)))"
proof -
  from assms obtain expected sigs d where
    "subscript v ''expected'' = Inr expected" "subscript expected ''signatures'' = Inr sigs"
    "subscript sigs fam = Inr d" "subscript d ''signature_hex'' = Inr sh"
    by (auto simp: claimed_signature_def split: sum.splits)
  then show ?thesis
    by (auto simp: ecdsa_fields_def subscript_Inr_contains and_then_def split: sum.splits)
qed

lemma validate_ecdsa_claimed:
  assumes "accepts_nonneg L" and "claimed_signature fam v = Some sh" and "truthy sh"
  shows "fst (validate_ecdsa L fam crv n v) = Some (either_verifies L fam crv n v)"
proof -
  from claimed_signature_fields[OF assms(2)] show ?thesis
  proof (elim disjE exE)
    fix e assume "ecdsa_fields fam v = Inl e"
    then show ?thesis
      by (simp add: validate_ecdsa_unreadable either_verifies_def)
  next
    fix kh ph dh assume "ecdsa_fields fam v = Inr (Some (kh, ph, sh, dh))"
    then show ?thesis using assms(1,3) by (simp add: validate_ecdsa_present)
  qed
qed

lemma stub_accepts_nonneg: "accepts_nonneg stub_library"
  by (simp add: accepts_nonneg_def stub_library_def stub_encode_dss_signature_def)

text \<open>
  C1. For a vector with a non-empty claimed signature of an ECDSA family, the outcome is
  Valid exactly when the claimed signature decodes and verifies with \<open>S\<close> as decoded or
  with \<open>n - S\<close>, and it is Invalid otherwise; \<open>n\<close> is the constant of the family, and
  the two constants differ. The library is assumed to encode every pair of integers that
  are not negative.
\<close>

theorem ecdsa_valid_iff_either_verifies:
  assumes "accepts_nonneg L"
  shows "(claimed_signature ''secp256k1'' v = Some sh \<and> truthy sh \<longrightarrow>
            fst (validate_secp256k1 L v)
              = Some (either_verifies L ''secp256k1'' SECP256K1 n_secp256k1 v))
       \<and> (claimed_signature ''secp256r1'' v = Some sh' \<and> truthy sh' \<longrightarrow>
            fst (validate_secp256r1 L v)
              = Some (either_verifies L ''secp256r1'' SECP256R1 n_secp256r1 v))
       \<and> n_secp256k1 \<noteq> n_secp256r1"
  using assms
  by (simp add: validate_secp256k1_def validate_secp256r1_def validate_ecdsa_claimed
      n_secp256k1_def n_secp256r1_def)

theorem ecdsa_valid_iff_either_verifies_witness:
  "accepts_nonneg stub_library
   \<and> claimed_signature ''secp256k1'' ecdsa_vector = Some (JStr complement_sig)
   \<and> truthy (JStr complement_sig)
   \<and> claimed_signature ''secp256r1'' ecdsa_vector = Some (JStr (one32 @ ''02''))
   \<and> truthy (JStr (one32 @ ''02''))
   \<and> fst (validate_secp256k1 stub_library ecdsa_vector) = Some True
   \<and> either_verifies stub_library ''secp256k1'' SECP256K1 n_secp256k1 ecdsa_vector
   \<and> fst (validate_secp256r1 stub_library ecdsa_vector) = Some False
   \<and> \<not> either_verifies stub_library ''secp256r1'' SECP256R1 n_secp256r1 ecdsa_vector"
proof -
  have c1: "claimed_signature ''secp256k1'' ecdsa_vector = Some (JStr complement_sig)"
    by (simp add: claimed_signature_def run_defs)
  have c2: "claimed_signature ''secp256r1'' ecdsa_vector = Some (JStr (one32 @ ''02''))"
    by (simp add: claimed_signature_def run_defs)
  have t: "truthy (JStr complement_sig)" "truthy (JStr (one32 @ ''02''))"
    by (simp_all add: complement_sig_def one32_def)
  have e1: "either_verifies stub_library ''secp256k1'' SECP256K1 n_secp256k1 ecdsa_vector"
    by (simp add: either_verifies_def signature_verifies_def run_defs)
  have e2: "\<not> either_verifies stub_library ''secp256r1'' SECP256R1 n_secp256r1 ecdsa_vector"
    by (simp add: either_verifies_def signature_verifies_def run_defs)
  show ?thesis
    using ecdsa_valid_iff_either_verifies [OF stub_accepts_nonneg, of ecdsa_vector
        "JStr complement_sig" "JStr (one32 @ ''02'')"] c1 c2 t e1 e2 stub_accepts_nonneg
    by simp
qed

text \<open>
  C10. A non-empty claimed signature that is well-formed hexadecimal is never refused for
  its length: whatever the number of bytes, \<open>R\<close> is the big-endian integer of the first
  32 bytes, \<open>S\<close> that of all the bytes after them, whatever the key and the digest
  are; when the key and the digest decode, the outcome is the result of verifying
  \<open>(R, S)\<close> or \<open>(R, n - S)\<close>.
\<close>

theorem ecdsa_signature_length_not_checked:
  assumes "accepts_nonneg L"
    and "sh \<noteq> []" and "fromhex (JStr sh) = Inr sb"
    and "fromhex kh = Inr kb" and "fromhex dh = Inr h"
  shows "ecdsa_decode L crv kh' dh' (JStr sh) =
           and_then (fromhex kh') (\<lambda>priv_key_bytes.
           and_then (derive_private_key L (from_bytes_big priv_key_bytes) crv) (\<lambda>private_key.
           and_then (fromhex dh') (\<lambda>message_hash.
             Inr (public_key L private_key, message_hash,
                  from_bytes_big (take 32 sb), from_bytes_big (drop 32 sb)))))
       \<and> (ecdsa_fields ''secp256k1'' v = Inr (Some (kh, ph, JStr sh, dh))
            \<and> derive_private_key L (from_bytes_big kb) SECP256K1 = Inr sk \<longrightarrow>
          fst (validate_secp256k1 L v) =
            Some (signature_verifies L (public_key L sk) h
                    (from_bytes_big (take 32 sb)) (from_bytes_big (drop 32 sb))
                  \<or> signature_verifies L (public_key L sk) h
                    (from_bytes_big (take 32 sb)) (n_secp256k1 - from_bytes_big (drop 32 sb))))
       \<and> (ecdsa_fields ''secp256r1'' v = Inr (Some (kh, ph, JStr sh, dh))
            \<and> derive_private_key L (from_bytes_big kb) SECP256R1 = Inr sk \<longrightarrow>
          fst (validate_secp256r1 L v) =
            Some (signature_verifies L (public_key L sk) h
                    (from_bytes_big (take 32 sb)) (from_bytes_big (drop 32 sb))
                  \<or> signature_verifies L (public_key L sk) h
                    (from_bytes_big (take 32 sb)) (n_secp256r1 - from_bytes_big (drop 32 sb))))"
proof -
  have "fst (validate_ecdsa L fam crv n v) =
          Some (signature_verifies L (public_key L sk) h
                  (from_bytes_big (take 32 sb)) (from_bytes_big (drop 32 sb))
                \<or> signature_verifies L (public_key L sk) h
                  (from_bytes_big (take 32 sb)) (n - from_bytes_big (drop 32 sb)))"
    if f: "ecdsa_fields fam v = Inr (Some (kh, ph, JStr sh, dh))"
      and d: "derive_private_key L (from_bytes_big kb) crv = Inr sk"
    for fam crv n
  proof -
    have "ecdsa_decode L crv kh dh (JStr sh) =
            Inr (public_key L sk, h, from_bytes_big (take 32 sb), from_bytes_big (drop 32 sb))"
      using assms(3-5) d by (simp add: ecdsa_decode_def Let_def)
    moreover have "truthy (JStr sh)" using assms(2) by simp
    ultimately show ?thesis
      using validate_ecdsa_present[OF assms(1) f, of crv n]
      by (simp add: either_verifies_def f)
  qed
  moreover have "ecdsa_decode L crv kh' dh' (JStr sh) =
           and_then (fromhex kh') (\<lambda>priv_key_bytes.
           and_then (derive_private_key L (from_bytes_big priv_key_bytes) crv) (\<lambda>private_key.
           and_then (fromhex dh') (\<lambda>message_hash.
             Inr (public_key L private_key, message_hash,
                  from_bytes_big (take 32 sb), from_bytes_big (drop 32 sb)))))"
    using assms(3) by (simp add: ecdsa_decode_def Let_def)
  ultimately show ?thesis
    by (simp add: validate_secp256k1_def validate_secp256r1_def)
qed

theorem ecdsa_signature_length_not_checked_witness:
  "accepts_nonneg stub_library
   \<and> one32 @ ''01'' \<noteq> []
   \<and> length (replicate 31 (0 :: byte) @ [1, 1]) = 33
   \<and> fromhex (JStr (one32 @ ''01'')) = Inr (replicate 31 0 @ [1, 1])
   \<and> fromhex (JStr one32) = Inr (replicate 31 0 @ [1])
   \<and> fromhex (JStr zeros32) = Inr (replicate 32 0)
   \<and> ecdsa_fields ''secp256k1'' long_signature_vector
        = Inr (Some (JStr one32, JStr [], JStr (one32 @ ''01''), JStr zeros32))
   \<and> derive_private_key stub_library (from_bytes_big (replicate 31 0 @ [1])) SECP256K1 = Inr 1
   \<and> fst (validate_secp256k1 stub_library long_signature_vector) = Some True"
proof -
  have a: "one32 @ ''01'' \<noteq> []" by (simp add: one32_def)
  have b: "fromhex (JStr (one32 @ ''01'')) = Inr (replicate 31 0 @ [1, 1])"
    by (simp add: run_defs eval_nat_numeral)
  have c: "fromhex (JStr one32) = Inr (replicate 31 0 @ [1])"
    by (simp add: run_defs eval_nat_numeral)
  have d: "fromhex (JStr zeros32) = Inr (replicate 32 0)"
    by (simp add: run_defs eval_nat_numeral)
  have e: "ecdsa_fields ''secp256k1'' long_signature_vector
             = Inr (Some (JStr one32, JStr [], JStr (one32 @ ''01''), JStr zeros32))"
    by (simp add: long_signature_vector_def vector_of_def family_entry_def ecdsa_fields_def)
  have f: "derive_private_key stub_library (from_bytes_big (replicate 31 0 @ [1])) SECP256K1
             = Inr 1"
    by (simp add: run_defs eval_nat_numeral)
  have g: "fst (validate_secp256k1 stub_library long_signature_vector) = Some True"
    using ecdsa_signature_length_not_checked [OF stub_accepts_nonneg a b c d,
        where v = long_signature_vector and ph = "JStr []" and sk = 1] e f
    by (simp add: signature_verifies_def run_defs eval_nat_numeral)
  show ?thesis using stub_accepts_nonneg a b c d e f g by simp
qed

subsection \<open>The supplied public key\<close>

lemma map_of_update_entry:
  "map_of (map (\<lambda>(k, x). if k = key then (k, f x) else (k, x)) kvs) k'
     = (if k' = key then map_option f (map_of kvs key) else map_of kvs k')"
  by (induction kvs) auto

lemma subscript_update_entry:
  "subscript (update_entry key f v) k'
     = (if k' = key then (case subscript v key of Inl e \<Rightarrow> Inl e | Inr x \<Rightarrow> Inr (f x))
        else subscript v k')"
  by (cases v) (auto simp: update_entry_def map_of_update_entry split: option.splits)

lemma contains_update_entry: "contains k' (update_entry key f v) = contains k' v"
  by (cases v) (auto simp: update_entry_def map_of_update_entry)

lemma ecdsa_fields_with_public_key:
  "ecdsa_fields fam (with_public_key fam p v)
     = (case ecdsa_fields fam v of
          Inr (Some (kh, ph, sh, dh)) \<Rightarrow> Inr (Some (kh, p, sh, dh))
        | other \<Rightarrow> other)"
  by (simp add: ecdsa_fields_def with_public_key_def subscript_update_entry
      contains_update_entry and_then_def split: sum.splits)

lemma validate_ecdsa_with_public_key:
  "validate_ecdsa L fam crv n (with_public_key fam p v) = validate_ecdsa L fam crv n v"
  by (simp add: validate_ecdsa_def validate_ecdsa_body_def ecdsa_fields_with_public_key
      split: sum.splits option.splits)

text \<open>
  C9. The outcome of the secp256k1 and secp256r1 checks does not depend on the value of
  \<^verbatim>\<open>public_key_hex\<close>: two vectors that differ only there get the same outcome, message
  included. The field is read and never used; the key that verifies is rebuilt from the
  private key.
\<close>

theorem ecdsa_outcome_ignores_public_key:
  "validate_secp256k1 L (with_public_key ''secp256k1'' p1 v)
     = validate_secp256k1 L (with_public_key ''secp256k1'' p2 v)
   \<and> validate_secp256r1 L (with_public_key ''secp256r1'' p1 v)
     = validate_secp256r1 L (with_public_key ''secp256r1'' p2 v)"
  by (simp add: validate_secp256k1_def validate_secp256r1_def validate_ecdsa_with_public_key)

theorem ecdsa_outcome_ignores_public_key_witness:
  "ecdsa_fields ''secp256k1'' (with_public_key ''secp256k1'' (JStr ''02aa'') ecdsa_vector)
     = Inr (Some (JStr one32, JStr ''02aa'', JStr complement_sig, JStr zeros32))
   \<and> ecdsa_fields ''secp256k1'' (with_public_key ''secp256k1'' JNull ecdsa_vector)
     = Inr (Some (JStr one32, JNull, JStr complement_sig, JStr zeros32))
   \<and> validate_secp256k1 stub_library (with_public_key ''secp256k1'' (JStr ''02aa'') ecdsa_vector)
     = validate_secp256k1 stub_library (with_public_key ''secp256k1'' JNull ecdsa_vector)
   \<and> validate_secp256r1 stub_library (with_public_key ''secp256r1'' (JStr ''02aa'') ecdsa_vector)
     = validate_secp256r1 stub_library (with_public_key ''secp256r1'' JNull ecdsa_vector)"
proof -
  have "ecdsa_fields ''secp256k1'' ecdsa_vector
          = Inr (Some (JStr one32, JStr [], JStr complement_sig, JStr zeros32))"
    by (simp add: ecdsa_vector_def vector_of_def family_entry_def ecdsa_fields_def)
  then show ?thesis
    using ecdsa_outcome_ignores_public_key [of stub_library "JStr ''02aa''" ecdsa_vector JNull]
    by (simp add: ecdsa_fields_with_public_key)
qed

subsection \<open>The Ed25519 check\<close>

lemma validate_ed25519_absent:
  "ed25519_fields v = Inr None \<Longrightarrow>
   validate_ed25519 L v = (None, ''No ed25519 signature in vector'')"
  by (simp add: validate_ed25519_def validate_ed25519_body_def)

lemma validate_ed25519_unreadable:
  "ed25519_fields v = Inl e \<Longrightarrow>
   validate_ed25519 L v = (Some False, ''Ed25519 validation error: '' @ exn_str e)"
  by (simp add: validate_ed25519_def validate_ed25519_body_def)

lemma validate_ed25519_readable:
  "ed25519_fields v = Inr (Some (kh, sh, dh)) \<Longrightarrow>
   validate_ed25519 L v =
     (case ed25519_recompute L kh dh of
        Inl e \<Rightarrow> (Some False, ''Ed25519 validation error: '' @ exn_str e)
      | Inr signature \<Rightarrow>
          if JStr (hex signature) = sh
          then (Some True, ''Ed25519 signature matches: '' @ take 32 (hex signature) @ ''...'')
          else (Some False,
                 ''Ed25519 mismatch!'' @ newline @ ''  Expected: '' @ py_str L sh
                 @ newline @ ''  Got:      '' @ hex signature))"
  by (simp add: validate_ed25519_def validate_ed25519_body_def Let_def split: sum.splits)

lemma ed25519_fields_cases:
  "(\<exists>e. ed25519_fields v = Inl e) \<or> ed25519_fields v = Inr None
   \<or> (\<exists>kh sh dh. ed25519_fields v = Inr (Some (kh, sh, dh)))"
proof (cases "ed25519_fields v")
  case (Inr r)
  then show ?thesis by (cases r) auto
qed simp

lemma family_present_ed25519: "family_present ''ed25519'' v \<Longrightarrow> ed25519_fields v \<noteq> Inr None"
  by (auto simp: family_present_def ed25519_fields_def and_then_def split: sum.splits)

text \<open>
  C2, as amended. When the Ed25519 family is present, the outcome is Valid exactly when
  the signature is recomputed and its hexadecimal text is the claimed
  \<^verbatim>\<open>signature_hex\<close>, character for character, and Invalid otherwise. The message of
  an Invalid outcome holds the expected and the recomputed text when a signature was
  recomputed; when a step raised before the comparison, it is the text of the
  exception after \<^verbatim>\<open>Ed25519 validation error: \<close>.
\<close>

theorem ed25519_valid_iff_matches:
  assumes "family_present ''ed25519'' v"
  shows "(fst (validate_ed25519 L v) = Some True \<longleftrightarrow> ed25519_matches L v)
       \<and> (\<not> ed25519_matches L v \<longrightarrow> fst (validate_ed25519 L v) = Some False)
       \<and> (\<forall>kh sh dh signature.
             ed25519_fields v = Inr (Some (kh, sh, dh))
             \<and> ed25519_recompute L kh dh = Inr signature \<and> sh \<noteq> JStr (hex signature) \<longrightarrow>
             snd (validate_ed25519 L v) =
               ''Ed25519 mismatch!'' @ newline @ ''  Expected: '' @ py_str L sh
               @ newline @ ''  Got:      '' @ hex signature)
       \<and> (\<forall>e. validate_ed25519_body L v = Inl e \<longrightarrow>
             snd (validate_ed25519 L v) = ''Ed25519 validation error: '' @ exn_str e)"
proof -
  from assms have present: "ed25519_fields v \<noteq> Inr None"
    by (rule family_present_ed25519)
  have last: "\<forall>e. validate_ed25519_body L v = Inl e \<longrightarrow>
             snd (validate_ed25519 L v) = ''Ed25519 validation error: '' @ exn_str e"
    by (simp add: validate_ed25519_def)
  from ed25519_fields_cases[of v] present
  consider e where "ed25519_fields v = Inl e"
    | kh sh dh where "ed25519_fields v = Inr (Some (kh, sh, dh))"
    by blast
  then show ?thesis
  proof cases
    case 1
    then show ?thesis using last
      by (simp add: validate_ed25519_unreadable ed25519_matches_def)
  next
    case 2
    then show ?thesis using last
      by (auto simp: validate_ed25519_readable ed25519_matches_def split: sum.splits)
  qed
qed

theorem ed25519_valid_iff_matches_witness:
  "family_present ''ed25519'' mismatch_vector
   \<and> \<not> ed25519_matches stub_library mismatch_vector
   \<and> validate_ed25519 stub_library mismatch_vector =
       (Some False,
        ''Ed25519 mismatch!'' @ newline @ ''  Expected: abcd'' @ newline
        @ ''  Got:      '' @ ed25519_signature)
   \<and> family_present ''ed25519'' seed_vector
   \<and> ed25519_matches stub_library seed_vector
   \<and> fst (validate_ed25519 stub_library seed_vector) = Some True"
proof -
  have p1: "family_present ''ed25519'' mismatch_vector"
    by (simp add: family_present_def mismatch_vector_def vector_of_def)
  have p2: "family_present ''ed25519'' seed_vector"
    by (simp add: family_present_def seed_vector_def vector_of_def)
  have m1: "\<not> ed25519_matches stub_library mismatch_vector"
    by (simp add: ed25519_matches_def run_defs)
  have m2: "ed25519_matches stub_library seed_vector"
    by (simp add: ed25519_matches_def run_defs)
  have v1: "validate_ed25519 stub_library mismatch_vector =
       (Some False,
        ''Ed25519 mismatch!'' @ newline @ ''  Expected: abcd'' @ newline
        @ ''  Got:      '' @ ed25519_signature)"
    by (simp add: run_defs)
  show ?thesis
    using ed25519_valid_iff_matches [OF p2, of stub_library] p1 p2 m1 m2 v1 by simp
qed

text \<open>
  C2 as it is stated fails on a vector whose Ed25519 family is present and whose private
  key is not hexadecimal: the outcome is Invalid and the message is that of the
  exception; no signature was recomputed, and the expected text is not in the message.
\<close>

theorem ed25519_error_message_counterexample:
  "family_present ''ed25519'' bad_key_vector
   \<and> claimed_signature ''ed25519'' bad_key_vector = Some (JStr ed25519_signature)
   \<and> validate_ed25519 stub_library bad_key_vector =
       (Some False,
        ''Ed25519 validation error: non-hexadecimal number found in fromhex() arg at position 0'')
   \<and> \<not> sublist ed25519_signature (snd (validate_ed25519 stub_library bad_key_vector))"
proof -
  have p: "family_present ''ed25519'' bad_key_vector"
    by (simp add: family_present_def bad_key_vector_def vector_of_def)
  have c: "claimed_signature ''ed25519'' bad_key_vector = Some (JStr ed25519_signature)"
    by (simp add: claimed_signature_def bad_key_vector_def vector_of_def family_entry_def)
  have v: "validate_ed25519 stub_library bad_key_vector =
       (Some False,
        ''Ed25519 validation error: non-hexadecimal number found in fromhex() arg at position 0'')"
    by (simp add: run_defs)
  have "length (snd (validate_ed25519 stub_library bad_key_vector)) < length ed25519_signature"
    by (simp add: v ed25519_signature_def one32_def zeros32_def)
  then have "\<not> sublist ed25519_signature (snd (validate_ed25519 stub_library bad_key_vector))"
    using sublist_length_le leD by blast
  with p c v show ?thesis by simp
qed

text \<open>
  C7. A private key of 64 bytes and the bare seed made of its first 32 bytes give the same
  recomputed signature and the same outcome: only the first 32 bytes reach
  \<^verbatim>\<open>from_private_bytes\<close>.
\<close>

theorem ed25519_expanded_key_uses_seed:
  assumes "fromhex k32 = Inr seed" and "length seed = 32"
    and "fromhex k64 = Inr (seed @ extra)" and "length extra = 32"
  shows "ed25519_recompute L k64 dh
           = and_then (from_private_bytes L seed) (\<lambda>private_key.
             and_then (fromhex dh) (\<lambda>message. sign L private_key message))
       \<and> ed25519_recompute L k32 dh = ed25519_recompute L k64 dh
       \<and> (ed25519_fields v = Inr (Some (k32, sh, dh))
            \<and> ed25519_fields v' = Inr (Some (k64, sh, dh)) \<longrightarrow>
          validate_ed25519 L v = validate_ed25519 L v')"
  using assms by (simp add: ed25519_recompute_def validate_ed25519_readable)

theorem ed25519_expanded_key_uses_seed_witness:
  "fromhex (JStr one32) = Inr (replicate 31 0 @ [1])
   \<and> length (replicate 31 (0 :: byte) @ [1]) = 32
   \<and> fromhex (JStr (one32 @ ones32)) = Inr ((replicate 31 0 @ [1]) @ replicate 32 255)
   \<and> length (replicate 32 (255 :: byte)) = 32
   \<and> ed25519_fields seed_vector
       = Inr (Some (JStr one32, JStr ed25519_signature, JStr zeros32))
   \<and> ed25519_fields expanded_key_vector
       = Inr (Some (JStr (one32 @ ones32), JStr ed25519_signature, JStr zeros32))
   \<and> validate_ed25519 stub_library seed_vector
       = validate_ed25519 stub_library expanded_key_vector
   \<and> fst (validate_ed25519 stub_library expanded_key_vector) = Some True"
proof -
  have a: "fromhex (JStr one32) = Inr (replicate 31 0 @ [1])"
    by (simp add: run_defs eval_nat_numeral)
  have b: "length (replicate 31 (0 :: byte) @ [1]) = 32" by simp
  have c: "fromhex (JStr (one32 @ ones32)) = Inr ((replicate 31 0 @ [1]) @ replicate 32 255)"
    by (simp add: run_defs eval_nat_numeral)
  have d: "length (replicate 32 (255 :: byte)) = 32" by simp
  have e: "ed25519_fields seed_vector
             = Inr (Some (JStr one32, JStr ed25519_signature, JStr zeros32))"
    by (simp add: seed_vector_def vector_of_def family_entry_def ed25519_fields_def)
  have f: "ed25519_fields expanded_key_vector
             = Inr (Some (JStr (one32 @ ones32), JStr ed25519_signature, JStr zeros32))"
    by (simp add: expanded_key_vector_def vector_of_def family_entry_def ed25519_fields_def)
  have g: "fst (validate_ed25519 stub_library seed_vector) = Some True"
    by (simp add: run_defs)
  show ?thesis
    using ed25519_expanded_key_uses_seed [OF a b c d, of stub_library "JStr zeros32"
        seed_vector "JStr ed25519_signature" expanded_key_vector] a b c d e f g
    by simp
qed

text \<open>
  C4 at a vector whose three families have an empty claimed signature: the ECDSA checks
  test for it and skip, \<^verbatim>\<open>validate_ed25519\<close> has no such test and reports a
  mismatch.
\<close>

theorem ed25519_empty_signature_is_invalid:
  "claimed_signature ''ed25519'' empty_signature_vector = Some (JStr [])
   \<and> validate_ed25519 stub_library empty_signature_vector =
       (Some False,
        ''Ed25519 mismatch!'' @ newline @ ''  Expected: '' @ newline
        @ ''  Got:      '' @ ed25519_signature)
   \<and> claimed_signature ''secp256k1'' empty_signature_vector = Some (JStr [])
   \<and> validate_secp256k1 stub_library empty_signature_vector =
       (None, ''Empty signature (seed derivation only)'')
   \<and> claimed_signature ''secp256r1'' empty_signature_vector = Some (JStr [])
   \<and> validate_secp256r1 stub_library empty_signature_vector =
       (None, ''Empty signature (seed derivation only)'')"
  by (simp add: claimed_signature_def run_defs)

subsection \<open>The loops of the run\<close>

lemma validate_vector_eq:
  "validate_vector L v =
     and_then (subscript v ''name'') (\<lambda>nm.
       Inr \<lparr>name = nm, algorithms = recorded (outcomes L v)\<rparr>)"
  by (simp add: validate_vector_def outcomes_def recorded_def add_algorithm_def Let_def
      split: option.splits)

lemma classify_eq:
  "classify nm algos (vp, res) =
     (vp \<and> list_all (\<lambda>(a, ok, m). ok) algos,
      res\<lparr>passed := passed res
              @ map (\<lambda>(a, ok, m). nm @ '':'' @ a) (filter (\<lambda>(a, ok, m). ok) algos),
          failed := failed res
              @ map (\<lambda>(a, ok, m). nm @ '':'' @ a) (filter (\<lambda>(a, ok, m). \<not> ok) algos)\<rparr>)"
  by (induction algos arbitrary: vp res) auto

lemma recorded_passed:
  "map (\<lambda>(a, ok, m). g a) (filter (\<lambda>(a, ok, m). ok) (recorded outs))
     = map (\<lambda>(fam, out). g fam) (filter (\<lambda>(fam, out). fst out = Some True) outs)"
  by (induction outs) (auto simp: recorded_def split: option.splits)

lemma recorded_failed:
  "map (\<lambda>(a, ok, m). g a) (filter (\<lambda>(a, ok, m). \<not> ok) (recorded outs))
     = map (\<lambda>(fam, out). g fam) (filter (\<lambda>(fam, out). fst out = Some False) outs)"
  by (induction outs) (auto simp: recorded_def split: option.splits)

lemma recorded_all_ok:
  "list_all (\<lambda>(a, ok, m). ok) (recorded outs)
     \<longleftrightarrow> filter (\<lambda>(fam, out). fst out = Some False) outs = []"
  by (induction outs) (auto simp: recorded_def split: option.splits)

lemma recorded_empty:
  "recorded outs = [] \<longleftrightarrow> list_all (\<lambda>(fam, out). fst out = None) outs"
  by (induction outs) (auto simp: recorded_def split: option.splits)

lemma nothing_recorded:
  "recorded outs = [] \<Longrightarrow> filter (\<lambda>(fam, out). fst out = Some b) outs = []"
  by (induction outs) (auto simp: recorded_def split: option.splits if_splits)

lemma skipped_names_Cons:
  "skipped_names L (v # vs) =
     (case subscript v ''name'' of
        Inl _ \<Rightarrow> []
      | Inr nm \<Rightarrow> if fully_skipped L v then [nm] else []) @ skipped_names L vs"
  by (simp add: skipped_names_def)

lemma run_loop_results:
  assumes "run_loop L items (ap, res) = Inr (ap', res')"
  shows "passed res' = passed res @ concat (map (identifiers L True) items)
       \<and> failed res' = failed res @ concat (map (identifiers L False) items)
       \<and> skipped res' = skipped res @ skipped_names L items
       \<and> (ap' \<longleftrightarrow> ap \<and> concat (map (identifiers L False) items) = [])
       \<and> (\<forall>v\<in>set items. \<exists>nm. subscript v ''name'' = Inr nm)"
  using assms
proof (induction items arbitrary: ap res)
  case Nil
  then show ?case by (simp add: skipped_names_def)
next
  case (Cons v items)
  from Cons.prems obtain nm where nm: "subscript v ''name'' = Inr nm"
    by (cases "subscript v ''name''") (simp_all add: validate_vector_eq)
  show ?case
  proof (cases "recorded (outcomes L v) = []")
    case True
    with Cons.prems nm
    have "run_loop L items (ap, res\<lparr>skipped := skipped res @ [nm]\<rparr>) = Inr (ap', res')"
      by (simp add: validate_vector_eq)
    from Cons.IH[OF this]
    have ih: "passed res' = passed res @ concat (map (identifiers L True) items)"
      "failed res' = failed res @ concat (map (identifiers L False) items)"
      "skipped res' = (skipped res @ [nm]) @ skipped_names L items"
      "ap' \<longleftrightarrow> ap \<and> concat (map (identifiers L False) items) = []"
      "\<forall>v\<in>set items. \<exists>nm. subscript v ''name'' = Inr nm"
      by simp_all
    have none: "identifiers L b v = []" for b
      using True nm by (simp add: identifiers_def nothing_recorded)
    have "fully_skipped L v"
      using True by (simp add: fully_skipped_def recorded_empty)
    with ih none nm show ?thesis
      by (simp add: skipped_names_Cons)
  next
    case False
    let ?res2 = "res\<lparr>passed := passed res @ identifiers L True v,
                     failed := failed res @ identifiers L False v\<rparr>"
    have cl: "classify (py_str L nm) (recorded (outcomes L v)) (True, res)
                = (identifiers L False v = [], ?res2)"
      using nm
      by (simp add: classify_eq recorded_passed recorded_failed recorded_all_ok identifiers_def)
    from Cons.prems nm False cl
    have "run_loop L items (if identifiers L False v \<noteq> [] then False else ap, ?res2)
            = Inr (ap', res')"
      by (simp add: validate_vector_eq)
    from Cons.IH[OF this]
    have ih: "passed res' = (passed res @ identifiers L True v)
                @ concat (map (identifiers L True) items)"
      "failed res' = (failed res @ identifiers L False v)
                @ concat (map (identifiers L False) items)"
      "skipped res' = skipped res @ skipped_names L items"
      "ap' \<longleftrightarrow> (if identifiers L False v \<noteq> [] then False else ap)
              \<and> concat (map (identifiers L False) items) = []"
      "\<forall>v\<in>set items. \<exists>nm. subscript v ''name'' = Inr nm"
      by simp_all
    have "\<not> fully_skipped L v"
      using False by (simp add: fully_skipped_def recorded_empty)
    with ih nm show ?thesis
      by (auto simp: skipped_names_Cons)
  qed
qed


lemma run_eq:
  "run L loaded = Inr r \<Longrightarrow>
   \<exists>data vs n. loaded = Inr data \<and> subscript data ''vectors'' = Inr vs \<and> py_len vs = Inr n
     \<and> py_iter vs = Inr (loaded_vectors loaded)
     \<and> run_loop L (loaded_vectors loaded) (True, no_results) = Inr r"
  by (auto simp: run_def loaded_vectors_def and_then_eq_Inr)

lemma run_results:
  assumes "run L loaded = Inr (ok, res)"
  shows "passed res = concat (map (identifiers L True) (loaded_vectors loaded))
       \<and> failed res = concat (map (identifiers L False) (loaded_vectors loaded))
       \<and> skipped res = skipped_names L (loaded_vectors loaded)
       \<and> (ok \<longleftrightarrow> concat (map (identifiers L False) (loaded_vectors loaded)) = [])
       \<and> (\<forall>v\<in>set (loaded_vectors loaded). \<exists>nm. subscript v ''name'' = Inr nm)"
proof -
  from run_eq[OF assms]
  have "run_loop L (loaded_vectors loaded) (True, no_results) = Inr (ok, res)" by blast
  from run_loop_results[OF this] show ?thesis by (simp add: no_results_def)
qed


lemma identifiers_member:
  "x \<in> set (identifiers L b v) \<Longrightarrow>
   \<exists>nm. \<exists>fam\<in>{''ed25519'', ''secp256k1'', ''secp256r1''}.
     subscript v ''name'' = Inr nm \<and> x = py_str L nm @ '':'' @ fam"
proof (cases "subscript v ''name''")
  case (Inl e)
  assume "x \<in> set (identifiers L b v)"
  with Inl show ?thesis by (simp add: identifiers_def)
next
  case (Inr nm)
  assume "x \<in> set (identifiers L b v)"
  with Inr show ?thesis by (auto simp: identifiers_def outcomes_def split: if_splits)
qed

lemma main_report:
  "report (main L file_exists loaded json_output) = Some res \<Longrightarrow>
   \<exists>ok. run L loaded = Inr (ok, res)"
  by (auto simp: main_def split: if_splits sum.splits option.splits prod.splits)

lemma run_skipping_file:
  "run stub_library skipping_file
     = Inr (True, \<lparr>passed = [''v:ed25519''], failed = [], skipped = [JStr ''w'']\<rparr>)"
  by (simp add: skipping_file_def run_defs)


text \<open>
  C5, as amended. Each of the three checks of a vector returns one outcome. A Valid outcome
  is recorded once in \<open>passed\<close> and an Invalid outcome once in \<open>failed\<close>, as
  \<^verbatim>\<open><name>:<family>\<close>, in the order of the vectors and of the checks. A Skipped outcome
  is not recorded for its family: the name of the vector is recorded once in \<open>skipped\<close>
  when all three outcomes are Skipped, and nothing is recorded of a Skipped outcome
  otherwise.
\<close>

theorem run_classifies_outcomes:
  assumes "run L loaded = Inr (ok, res)"
  shows "(\<forall>v\<in>set (loaded_vectors loaded).
            map fst (outcomes L v) = [''ed25519'', ''secp256k1'', ''secp256r1''])
       \<and> passed res = concat (map (identifiers L True) (loaded_vectors loaded))
       \<and> failed res = concat (map (identifiers L False) (loaded_vectors loaded))
       \<and> skipped res = skipped_names L (loaded_vectors loaded)"
  using run_results[OF assms] by (simp add: outcomes_def)

theorem run_classifies_outcomes_witness:
  "run stub_library skipping_file
     = Inr (True, \<lparr>passed = [''v:ed25519''], failed = [], skipped = [JStr ''w'']\<rparr>)
   \<and> concat (map (identifiers stub_library True) (loaded_vectors skipping_file))
       = [''v:ed25519'']
   \<and> concat (map (identifiers stub_library False) (loaded_vectors skipping_file)) = []
   \<and> skipped_names stub_library (loaded_vectors skipping_file) = [JStr ''w'']"
  using run_classifies_outcomes [OF run_skipping_file] run_skipping_file by simp

text \<open>
  C5 as it is stated fails on a vector with a valid Ed25519 signature, an empty secp256k1
  signature and no secp256r1 entry: two of its outcomes are Skipped and the report has
  one entry, in \<open>passed\<close>.
\<close>

theorem skipped_outcome_dropped_counterexample:
  "fst (validate_ed25519 stub_library mixed_vector) = Some True
   \<and> fst (validate_secp256k1 stub_library mixed_vector) = None
   \<and> fst (validate_secp256r1 stub_library mixed_vector) = None
   \<and> run stub_library (vectors_file [mixed_vector])
       = Inr (True, \<lparr>passed = [''v:ed25519''], failed = [], skipped = []\<rparr>)"
  by (simp add: run_defs)

text \<open>
  C8, as amended. In a report that is written, \<open>passed\<close> and \<open>failed\<close> hold only
  identifiers \<^verbatim>\<open><name>:<family>\<close> of a loaded vector and one of the three families,
  one for each Valid and one for each Invalid outcome;
  \<open>skipped\<close> holds the bare names of the vectors all of whose outcomes are Skipped, and
  every such vector has its name there.
\<close>

theorem report_entries:
  assumes "report (main L file_exists loaded json_output) = Some res"
  shows "passed res = concat (map (identifiers L True) (loaded_vectors loaded))
       \<and> failed res = concat (map (identifiers L False) (loaded_vectors loaded))
       \<and> (\<forall>x\<in>set (passed res) \<union> set (failed res).
            \<exists>v\<in>set (loaded_vectors loaded). \<exists>nm.
            \<exists>fam\<in>{''ed25519'', ''secp256k1'', ''secp256r1''}.
              subscript v ''name'' = Inr nm \<and> x = py_str L nm @ '':'' @ fam)
       \<and> (\<forall>x\<in>set (skipped res).
            \<exists>v\<in>set (loaded_vectors loaded). subscript v ''name'' = Inr x \<and> fully_skipped L v)
       \<and> (\<forall>v\<in>set (loaded_vectors loaded). fully_skipped L v \<longrightarrow>
            (\<exists>nm. subscript v ''name'' = Inr nm \<and> nm \<in> set (skipped res)))"
proof -
  from main_report[OF assms] obtain ok where "run L loaded = Inr (ok, res)" ..
  note r = run_results[OF this]
  have a: "\<exists>v\<in>set (loaded_vectors loaded). \<exists>nm.
            \<exists>fam\<in>{''ed25519'', ''secp256k1'', ''secp256r1''}.
              subscript v ''name'' = Inr nm \<and> x = py_str L nm @ '':'' @ fam"
    if "x \<in> set (passed res) \<union> set (failed res)" for x
  proof -
    from that r obtain v b where "v \<in> set (loaded_vectors loaded)" "x \<in> set (identifiers L b v)"
      by auto
    then show ?thesis using identifiers_member by blast
  qed
  have b: "\<exists>v\<in>set (loaded_vectors loaded). subscript v ''name'' = Inr x \<and> fully_skipped L v"
    if "x \<in> set (skipped res)" for x
    using that r by (auto simp: skipped_names_def split: sum.splits if_splits)
  have c: "\<exists>nm. subscript v ''name'' = Inr nm \<and> nm \<in> set (skipped res)"
    if "v \<in> set (loaded_vectors loaded)" "fully_skipped L v" for v
  proof -
    from that r obtain nm where nm: "subscript v ''name'' = Inr nm" by blast
    with that have "nm \<in> set (skipped_names L (loaded_vectors loaded))"
      by (force simp: skipped_names_def)
    with nm r show ?thesis by auto
  qed
  from a b c r show ?thesis by blast
qed

theorem report_entries_witness:
  "report (main stub_library True skipping_file (Some None))
     = Some \<lparr>passed = [''v:ed25519''], failed = [], skipped = [JStr ''w'']\<rparr>
   \<and> (\<exists>v\<in>set (loaded_vectors skipping_file).
         subscript v ''name'' = Inr (JStr ''w'') \<and> fully_skipped stub_library v)
   \<and> (\<exists>v\<in>set (loaded_vectors skipping_file). \<exists>nm.
       \<exists>fam\<in>{''ed25519'', ''secp256k1'', ''secp256r1''}.
         subscript v ''name'' = Inr nm \<and> ''v:ed25519'' = py_str stub_library nm @ '':'' @ fam)"
proof -
  have r: "report (main stub_library True skipping_file (Some None))
     = Some \<lparr>passed = [''v:ed25519''], failed = [], skipped = [JStr ''w'']\<rparr>"
    by (simp add: main_def run_skipping_file)
  from report_entries [OF r] r show ?thesis by simp
qed

text \<open>
  C8 as it is stated fails on a vector named \<^verbatim>\<open>v\<close> with no family: the entry of
  \<open>skipped\<close> is the name alone, with no colon and no family.
\<close>

theorem skipped_entry_is_a_name_counterexample:
  "report (main stub_library True (vectors_file [vector_of ''v'' []]) (Some None))
     = Some \<lparr>passed = [], failed = [], skipped = [JStr ''v'']\<rparr>
   \<and> CHR '':'' \<notin> set ''v''"
  by (simp add: run_defs)







end
